theory Spec2Isabelle
  imports
    Main
    "HOL-Library.Sublist"
    "HOL-Library.Char_ord"
    "HOL-Library.List_Lexorder"
    "HOL-Library.Multiset"
begin

section \<open>The three Go review agents: architect, engineer reviewer, tester\<close>

text \<open>
  The scripts \<^verbatim>\<open>go_architect.py\<close>, \<^verbatim>\<open>go_engineer_reviewer.py\<close> and
  \<^verbatim>\<open>go_tester.py\<close> gather Go source files, assemble one text context, send it
  to a text-generation service and route the answer to a file or to standard output.

  Python strings are modelled as \<^typ>\<open>string\<close>; a character stands for a code point
  below 256. Everything the scripts ask of the operating system (directory walks, file
  reads, path tests, the \<^verbatim>\<open>git\<close> child process, the generation service, file
  writes, the environment) is a field of the record \<open>world\<close>, so every theorem holds
  for every behaviour of the surroundings. What the scripts do to the surroundings is
  recorded in the record \<open>state\<close>, which every operation takes and returns.
  A raised exception is the left summand of a result \<open>string + 'a\<close>, carrying the
  exception's text.
\<close>

subsection \<open>Strings\<close>

abbreviation (input) NL :: char where
  "NL \<equiv> CHR 0x0A"

text \<open>\<^verbatim>\<open>s.startswith(p)\<close>, \<^verbatim>\<open>s.endswith(p)\<close> and \<^verbatim>\<open>sub in s\<close>.\<close>

definition startswith :: "string \<Rightarrow> string \<Rightarrow> bool" where
  "startswith s p = prefix p s"

definition endswith :: "string \<Rightarrow> string \<Rightarrow> bool" where
  "endswith s p = suffix p s"

definition contains :: "string \<Rightarrow> string \<Rightarrow> bool" where
  "contains sub s = sublist sub s"

text \<open>
  \<^verbatim>\<open>str.isspace\<close> on one character, for the code points below 256: the ASCII
  white space 9 to 13 and 32, the separators 28 to 31, NEL (133) and the no-break
  space (160).
\<close>

definition isspace :: "char \<Rightarrow> bool" where
  "isspace c =
     (let n = (of_char c :: nat)
      in (9 \<le> n \<and> n \<le> 13) \<or> (28 \<le> n \<and> n \<le> 32) \<or> n = 133 \<or> n = 160)"

text \<open>\<^verbatim>\<open>s.strip()\<close>: white space removed at both ends.\<close>

definition strip :: "string \<Rightarrow> string" where
  "strip s = rev (dropWhile isspace (rev (dropWhile isspace s)))"

text \<open>
  \<^verbatim>\<open>s.split(sep)\<close> for a separator of one character: the pieces between the
  separators, the empty ones kept; the empty string gives one empty piece.
\<close>

fun split :: "char \<Rightarrow> string \<Rightarrow> string list" where
  "split sep [] = [[]]"
| "split sep (c # cs) =
     (if c = sep then [] # split sep cs
      else (case split sep cs of
              [] \<Rightarrow> [[c]]
            | piece # pieces \<Rightarrow> (c # piece) # pieces))"

text \<open>
  \<^verbatim>\<open>s.lower()\<close> for the code points below 256: the ASCII capitals, and the
  Latin-1 capitals 192 to 222 but for the multiplication sign (215).
\<close>

definition lower_char :: "char \<Rightarrow> char" where
  "lower_char c =
     (let n = (of_char c :: nat)
      in if (65 \<le> n \<and> n \<le> 90) \<or> (192 \<le> n \<and> n \<le> 222 \<and> n \<noteq> 215)
         then char_of (n + 32) else c)"

definition lower :: "string \<Rightarrow> string" where
  "lower s = map lower_char s"

text \<open>
  \<^verbatim>\<open>Path(p).name\<close> (the text after the last separator) and
  \<^verbatim>\<open>Path(p).suffix\<close>: the name from its last dot on, when that dot is neither
  the first nor the last character of the name, and the empty string otherwise.
\<close>

definition path_name :: "string \<Rightarrow> string" where
  "path_name p = rev (takeWhile (\<lambda>c. c \<noteq> CHR ''/'') (rev p))"

definition path_suffix :: "string \<Rightarrow> string" where
  "path_suffix p =
     (let name = path_name p;
          ext = rev (takeWhile (\<lambda>c. c \<noteq> CHR ''.'') (rev name))
      in if CHR ''.'' \<in> set name \<and> ext \<noteq> [] \<and> length ext + 1 < length name
         then CHR ''.'' # ext else [])"

subsection \<open>The surroundings and the effects\<close>

type_synonym path = string

datatype agent = Architect | Reviewer | Tester

text \<open>
  What \<^verbatim>\<open>subprocess.run(..., capture_output=True, text=True)\<close> gives: a finished
  child with its return code, standard output and standard error, or an exception of
  the call itself (the program is missing, its output cannot be decoded).
\<close>

datatype proc = Exited int string string | Run_raised string

record world =
  entries :: "path list"
    \<comment> \<open>every path below the working directory, as \<^verbatim>\<open>str(path)\<close>, in the order
        \<^verbatim>\<open>Path(".").rglob\<close> walks them\<close>
  open_read :: "path \<Rightarrow> string + string"
    \<comment> \<open>\<^verbatim>\<open>open(p, "r")\<close> and \<^verbatim>\<open>f.read()\<close>: the content, or the text of
        the exception raised (an \<^verbatim>\<open>OSError\<close> or a decoding error, both of class
        \<^verbatim>\<open>Exception\<close>)\<close>
  path_exists :: "path \<Rightarrow> bool"
  subprocess_run :: "string list \<Rightarrow> proc"
  messages_create :: "agent \<Rightarrow> string \<Rightarrow> string + string"
    \<comment> \<open>\<^verbatim>\<open>client.messages.create(...).content[0].text\<close> for the agent's fixed
        \<^verbatim>\<open>SYSTEM_PROMPT\<close> and the given user content, or the exception raised\<close>
  open_write :: "path \<Rightarrow> string option"
    \<comment> \<open>\<^verbatim>\<open>open(p, "w")\<close> and \<^verbatim>\<open>f.write(text)\<close>: \<open>None\<close> when both succeed,
        else the text of the exception raised\<close>
  environ :: "string \<rightharpoonup> string"

datatype event =
    Rglob string
  | Open_read path
  | Exists path
  | Run "string list"
  | Create agent string
  | Open_write path

record state =
  trace :: "event list"
    \<comment> \<open>the calls made to the surroundings, oldest first\<close>
  stdout :: string
  stderr :: string
  written :: "path \<rightharpoonup> string"
    \<comment> \<open>the files this run has written, with their whole new content\<close>

definition emit :: "event \<Rightarrow> state \<Rightarrow> state" where
  "emit e st = st\<lparr>trace := trace st @ [e]\<rparr>"

text \<open>\<^verbatim>\<open>print(s)\<close> and \<^verbatim>\<open>print(s, file=sys.stderr)\<close>: the text and a newline.\<close>

definition print_out :: "string \<Rightarrow> state \<Rightarrow> state" where
  "print_out s st = st\<lparr>stdout := stdout st @ s @ [NL]\<rparr>"

definition print_err :: "string \<Rightarrow> state \<Rightarrow> state" where
  "print_err s st = st\<lparr>stderr := stderr st @ s @ [NL]\<rparr>"

text \<open>
  \<^verbatim>\<open>Path(".").rglob("*" + suf)\<close> for a suffix without a separator: the entries
  whose name ends with the suffix, which are the entries whose path does. Matching is
  case sensitive (POSIX).
\<close>

definition rglob :: "world \<Rightarrow> string \<Rightarrow> state \<Rightarrow> path list \<times> state" where
  "rglob w suf st =
     ([p \<leftarrow> entries w. endswith p suf], emit (Rglob (CHR ''*'' # suf)) st)"

subsection \<open>Rendering one file (the same function in the three scripts)\<close>

definition file_block :: "path \<Rightarrow> string \<Rightarrow> string" where
  "file_block filepath content =
     ''### File: '' @ filepath @ [NL] @ ''```go'' @ [NL] @ content @ [NL] @ ''```'' @ [NL]"

definition error_block :: "path \<Rightarrow> string \<Rightarrow> string" where
  "error_block filepath e =
     ''### File: '' @ filepath @ [NL] @ ''Error reading file: '' @ e @ [NL]"

text \<open>
  \<^verbatim>\<open>read_file\<close>: the \<^verbatim>\<open>try\<close> body opens and reads the file and returns the fenced
  block; \<^verbatim>\<open>except Exception as e\<close> returns the error block.
\<close>

definition read_file :: "world \<Rightarrow> path \<Rightarrow> state \<Rightarrow> (string + string) \<times> state" where
  "read_file w filepath st =
     (case open_read w filepath of
        Inr content \<Rightarrow> (Inr (file_block filepath content), emit (Open_read filepath) st)
      | Inl e \<Rightarrow> (Inr (error_block filepath e), emit (Open_read filepath) st))"

text \<open>
  The loop \<^verbatim>\<open>for filepath in files: code_context += read_file(filepath)\<close>; an
  exception of \<^verbatim>\<open>read_file\<close> would end it.
\<close>

fun read_files :: "world \<Rightarrow> path list \<Rightarrow> string \<Rightarrow> state \<Rightarrow> (string + string) \<times> state" where
  "read_files w [] code_context st = (Inr code_context, st)"
| "read_files w (filepath # rest) code_context st =
     (case read_file w filepath st of
        (Inl e, st') \<Rightarrow> (Inl e, st')
      | (Inr block, st') \<Rightarrow> read_files w rest (code_context @ block) st')"

subsection \<open>Discovery\<close>

text \<open>\<^verbatim>\<open>find_go_files\<close> of \<^verbatim>\<open>go_architect.py\<close> and of \<^verbatim>\<open>go_tester.py\<close>.\<close>

definition find_go_files :: "world \<Rightarrow> state \<Rightarrow> path list \<times> state" where
  "find_go_files w st =
     (case rglob w ''.go'' st of
        (paths, st') \<Rightarrow> (sort [p \<leftarrow> paths. \<not> contains ''_test.go'' p], st'))"

text \<open>\<^verbatim>\<open>find_go_files\<close> of \<^verbatim>\<open>go_engineer_reviewer.py\<close>.\<close>

definition find_go_files_reviewer :: "world \<Rightarrow> state \<Rightarrow> path list \<times> state" where
  "find_go_files_reviewer w st =
     (case rglob w ''.go'' st of (paths, st') \<Rightarrow> (sort paths, st'))"

text \<open>\<^verbatim>\<open>find_test_files\<close> of \<^verbatim>\<open>go_tester.py\<close>.\<close>

definition find_test_files :: "world \<Rightarrow> state \<Rightarrow> path list \<times> state" where
  "find_test_files w st =
     (case rglob w ''_test.go'' st of (paths, st') \<Rightarrow> (sort paths, st'))"

text \<open>
  The choice between the explicit list and discovery. \<^verbatim>\<open>if files:\<close> holds for a
  list that is given and not empty.
\<close>

definition go_files_architect ::
  "world \<Rightarrow> string list option \<Rightarrow> state \<Rightarrow> path list \<times> state" where
  "go_files_architect w files st =
     (case files of
        Some (f # fs) \<Rightarrow> ([g \<leftarrow> f # fs. endswith g ''.go''], st)
      | _ \<Rightarrow> find_go_files w st)"

definition go_files_reviewer ::
  "world \<Rightarrow> string list option \<Rightarrow> state \<Rightarrow> path list \<times> state" where
  "go_files_reviewer w files st =
     (case files of
        Some (f # fs) \<Rightarrow> ([g \<leftarrow> f # fs. endswith g ''.go''], st)
      | _ \<Rightarrow> find_go_files_reviewer w st)"

definition go_files_tester ::
  "world \<Rightarrow> string list option \<Rightarrow> state \<Rightarrow> path list \<times> state" where
  "go_files_tester w files st =
     (case files of
        Some (f # fs) \<Rightarrow>
          ([g \<leftarrow> f # fs. endswith g ''.go'' \<and> \<not> contains ''_test.go'' g], st)
      | _ \<Rightarrow> find_go_files w st)"

subsection \<open>The request to the generation service\<close>

text \<open>
  \<^verbatim>\<open>client.messages.create(...)\<close> followed by \<^verbatim>\<open>message.content[0].text\<close>.
  The model, the token limit and the system prompt are constants of each script, so
  the call is determined by the agent and the user content. Constructing the client
  (\<^verbatim>\<open>anthropic.Anthropic()\<close>) sends nothing and is not an event.
\<close>

definition create :: "world \<Rightarrow> agent \<Rightarrow> string \<Rightarrow> state \<Rightarrow> (string + string) \<times> state" where
  "create w a content st = (messages_create w a content, emit (Create a content) st)"

fun is_create :: "event \<Rightarrow> bool" where
  "is_create (Create a content) = True"
| "is_create ev = False"

text \<open>Whether the run has called the generation service.\<close>

definition dispatched :: "state \<Rightarrow> bool" where
  "dispatched st = list_ex is_create (trace st)"

subsection \<open>The architect: \<^verbatim>\<open>go_architect.py\<close>\<close>

definition is_api_spec :: "path \<Rightarrow> bool" where
  "is_api_spec p = (contains ''openapi'' (lower p) \<or> contains ''swagger'' (lower p))"

definition find_api_specs :: "world \<Rightarrow> state \<Rightarrow> path list \<times> state" where
  "find_api_specs w st =
     (case rglob w ''.yaml'' st of (yamls, st1) \<Rightarrow>
      case rglob w ''.yml'' st1 of (ymls, st2) \<Rightarrow>
      case rglob w ''.json'' st2 of (jsons, st3) \<Rightarrow>
        (let specs = [p \<leftarrow> yamls @ ymls @ jsons. is_api_spec p]
         in (if path_exists w ''openapi.yaml'' \<and> ''openapi.yaml'' \<notin> set specs
             then specs @ [''openapi.yaml''] else specs,
             emit (Exists ''openapi.yaml'') st3)))"

text \<open>One turn of the loop over the specification files, with its own \<^verbatim>\<open>try\<close>.\<close>

definition read_spec :: "world \<Rightarrow> path \<Rightarrow> state \<Rightarrow> (string + string) \<times> state" where
  "read_spec w spec st =
     (case open_read w spec of
        Inr content \<Rightarrow>
          (Inr (''### File: '' @ spec @ [NL] @ ''```'' @ drop 1 (path_suffix spec) @ [NL]
                @ content @ [NL] @ ''```'' @ [NL]),
           emit (Open_read spec) st)
      | Inl e \<Rightarrow> (Inr (error_block spec e), emit (Open_read spec) st))"

fun read_specs :: "world \<Rightarrow> path list \<Rightarrow> string \<Rightarrow> state \<Rightarrow> (string + string) \<times> state" where
  "read_specs w [] code_context st = (Inr code_context, st)"
| "read_specs w (spec # rest) code_context st =
     (case read_spec w spec st of
        (Inl e, st') \<Rightarrow> (Inl e, st')
      | (Inr block, st') \<Rightarrow> read_specs w rest (code_context @ block) st')"

definition run_review_architect ::
  "world \<Rightarrow> string list option \<Rightarrow> state \<Rightarrow> (string + string) \<times> state" where
  "run_review_architect w files st =
     (case go_files_architect w files st of (go_files, st1) \<Rightarrow>
      if go_files = [] then (Inr ''No Go files found to review.'', st1)
      else
        (case read_files w go_files (''# Code to Review'' @ [NL, NL]) st1 of
           (Inl e, st2) \<Rightarrow> (Inl e, st2)
         | (Inr code_context, st2) \<Rightarrow>
            (case find_api_specs w st2 of (specs, st3) \<Rightarrow>
              (case (if specs \<noteq> []
                     then read_specs w specs
                            (code_context @ [NL] @ ''# API Specifications'' @ [NL, NL]) st3
                     else (Inr code_context, st3)) of
                 (Inl e, st4) \<Rightarrow> (Inl e, st4)
               | (Inr code_context', st4) \<Rightarrow>
                   create w Architect
                     (''Please review the following Go API code for architectural best practices:''
                      @ [NL, NL] @ code_context') st4))))"

subsection \<open>The engineer reviewer: \<^verbatim>\<open>go_engineer_reviewer.py\<close>\<close>

definition get_git_diff :: "world \<Rightarrow> string \<Rightarrow> state \<Rightarrow> (string + string) \<times> state" where
  "get_git_diff w base st =
     (let cmd = [''git'', ''diff'', base, ''--'', ''*.go'']
      in (case subprocess_run w cmd of
            Run_raised e \<Rightarrow> Inl e
          | Exited rc out err \<Rightarrow>
              if rc = 0 then Inr out else Inr (''Error getting git diff: '' @ err),
          emit (Run cmd) st))"

definition get_changed_files ::
  "world \<Rightarrow> string \<Rightarrow> state \<Rightarrow> (string + path list) \<times> state" where
  "get_changed_files w base st =
     (let cmd = [''git'', ''diff'', ''--name-only'', base, ''--'', ''*.go'']
      in (case subprocess_run w cmd of
            Run_raised e \<Rightarrow> Inl e
          | Exited rc out err \<Rightarrow>
              if rc = 0 then Inr [strip f. f \<leftarrow> split NL (strip out), strip f \<noteq> []]
              else Inr [],
          emit (Run cmd) st))"

text \<open>
  The loop of the diff mode:
  \<^verbatim>\<open>for filepath in changed_files: if os.path.exists(filepath): code_context += read_file(filepath)\<close>.
\<close>

fun read_existing :: "world \<Rightarrow> path list \<Rightarrow> string \<Rightarrow> state \<Rightarrow> (string + string) \<times> state" where
  "read_existing w [] code_context st = (Inr code_context, st)"
| "read_existing w (filepath # rest) code_context st =
     (if path_exists w filepath
      then (case read_file w filepath (emit (Exists filepath) st) of
              (Inl e, st') \<Rightarrow> (Inl e, st')
            | (Inr block, st') \<Rightarrow> read_existing w rest (code_context @ block) st')
      else read_existing w rest code_context (emit (Exists filepath) st))"

text \<open>The request that ends both branches of \<^verbatim>\<open>run_review\<close>.\<close>

definition review_request :: "world \<Rightarrow> string \<Rightarrow> state \<Rightarrow> (string + string) \<times> state" where
  "review_request w code_context st =
     create w Reviewer (''Please conduct a thorough code review:'' @ [NL, NL] @ code_context) st"

definition run_review_reviewer ::
  "world \<Rightarrow> string list option \<Rightarrow> bool \<Rightarrow> string \<Rightarrow> state \<Rightarrow> (string + string) \<times> state" where
  "run_review_reviewer w files use_diff base st =
     (if use_diff then
        (case get_git_diff w base st of
           (Inl e, st1) \<Rightarrow> (Inl e, st1)
         | (Inr diff, st1) \<Rightarrow>
             if diff = [] \<or> startswith diff ''Error''
             then (Inr (''No changes to review or error: '' @ diff), st1)
             else
               (let code_context =
                      ''# Git Diff (against '' @ base @ '')'' @ [NL, NL] @ ''```diff'' @ [NL]
                      @ diff @ [NL] @ ''```'' @ [NL]
                in case get_changed_files w base st1 of
                     (Inl e, st2) \<Rightarrow> (Inl e, st2)
                   | (Inr changed_files, st2) \<Rightarrow>
                      (case (if changed_files \<noteq> []
                             then read_existing w changed_files
                                    (code_context @ [NL] @ ''# Full Files (for context)''
                                     @ [NL, NL]) st2
                             else (Inr code_context, st2)) of
                         (Inl e, st3) \<Rightarrow> (Inl e, st3)
                       | (Inr code_context', st3) \<Rightarrow> review_request w code_context' st3)))
      else
        (case go_files_reviewer w files st of (go_files, st1) \<Rightarrow>
         if go_files = [] then (Inr ''No Go files found to review.'', st1)
         else
           (case read_files w go_files (''# Code to Review'' @ [NL, NL]) st1 of
              (Inl e, st2) \<Rightarrow> (Inl e, st2)
            | (Inr code_context, st2) \<Rightarrow> review_request w code_context st2)))"

subsection \<open>The tester: \<^verbatim>\<open>go_tester.py\<close>\<close>

definition run_test_generation ::
  "world \<Rightarrow> string list option \<Rightarrow> state \<Rightarrow> (string + string) \<times> state" where
  "run_test_generation w files st =
     (case go_files_tester w files st of (go_files, st1) \<Rightarrow>
      if go_files = [] then (Inr ''No Go files found to generate tests for.'', st1)
      else
        (case read_files w go_files (''# Source Code to Test'' @ [NL, NL]) st1 of
           (Inl e, st2) \<Rightarrow> (Inl e, st2)
         | (Inr code_context, st2) \<Rightarrow>
            (case find_test_files w st2 of (existing_tests, st3) \<Rightarrow>
              (case (if existing_tests \<noteq> []
                     then read_files w existing_tests
                            (code_context @ [NL] @ ''# Existing Tests (for reference)''
                             @ [NL, NL]) st3
                     else (Inr code_context, st3)) of
                 (Inl e, st4) \<Rightarrow> (Inl e, st4)
               | (Inr code_context', st4) \<Rightarrow>
                   create w Tester
                     (''Please generate comprehensive tests for the following Go code:''
                      @ [NL, NL] @ code_context' @ [NL, NL]
                      @ ''Provide complete, runnable test files.'') st4))))"

subsection \<open>The entry points\<close>

text \<open>
  How a run ends: \<^verbatim>\<open>sys.exit(n)\<close> or the return of \<^verbatim>\<open>main\<close> (exit code 0), or
  an exception that nothing catches.
\<close>

datatype outcome = Exit int | Uncaught string

text \<open>
  The arguments as \<^verbatim>\<open>parser.parse_args()\<close> returns them: \<^verbatim>\<open>--files\<close> is absent
  (\<open>None\<close>) or a list, \<^verbatim>\<open>--output\<close> is absent or a string. The reviewer has
  \<^verbatim>\<open>--diff\<close> and \<^verbatim>\<open>--base\<close> too.
\<close>

record args =
  files :: "string list option"
  output_file :: "string option"
    \<comment> \<open>\<^verbatim>\<open>args.output\<close>\<close>

record reviewer_args = args +
  diff :: bool
  base :: string

text \<open>
  The end of every \<^verbatim>\<open>main\<close>: \<^verbatim>\<open>if args.output:\<close> holds for a path that is given
  and not empty; the file is opened for writing (truncated), the text is written and the
  confirmation goes to the standard error stream; otherwise the text is printed. In the
  architect and the reviewer the confirmation starts with \<^verbatim>\<open>Review\<close>, in the
  tester with \<^verbatim>\<open>Tests\<close>. When \<^verbatim>\<open>open_write\<close> raises, the exception ends the run
  and the model says nothing of the file.
\<close>

definition write_output ::
  "string \<Rightarrow> world \<Rightarrow> string option \<Rightarrow> string \<Rightarrow> state \<Rightarrow> outcome \<times> state" where
  "write_output what w out_path review st =
     (case out_path of
        Some (c # cs) \<Rightarrow>
          (case open_write w (c # cs) of
             Some e \<Rightarrow> (Uncaught e, emit (Open_write (c # cs)) st)
           | None \<Rightarrow>
               (Exit 0,
                print_err (what @ '' written to '' @ (c # cs))
                  ((emit (Open_write (c # cs)) st)
                     \<lparr>written := (written st)((c # cs) \<mapsto> review)\<rparr>)))
      | _ \<Rightarrow> (Exit 0, print_out review st))"

text \<open>
  \<^verbatim>\<open>if not os.environ.get("ANTHROPIC_API_KEY")\<close> holds when the variable is unset
  or empty.
\<close>

definition api_key_set :: "world \<Rightarrow> bool" where
  "api_key_set w =
     (case environ w ''ANTHROPIC_API_KEY'' of Some (c # cs) \<Rightarrow> True | _ \<Rightarrow> False)"

definition main_architect :: "world \<Rightarrow> args \<Rightarrow> state \<Rightarrow> outcome \<times> state" where
  "main_architect w a st =
     (if \<not> api_key_set w
      then (Exit 1, print_out ''Error: ANTHROPIC_API_KEY environment variable not set'' st)
      else
        (case run_review_architect w (files a)
                (print_err (''Running Go Architecture Review...'' @ [NL]) st) of
           (Inl e, st') \<Rightarrow> (Uncaught e, st')
         | (Inr review, st') \<Rightarrow> write_output ''Review'' w (output_file a) review st'))"

definition main_reviewer :: "world \<Rightarrow> reviewer_args \<Rightarrow> state \<Rightarrow> outcome \<times> state" where
  "main_reviewer w a st =
     (if \<not> api_key_set w
      then (Exit 1, print_out ''Error: ANTHROPIC_API_KEY environment variable not set'' st)
      else
        (case run_review_reviewer w (files a) (diff a) (base a)
                (print_err (''Running Go Code Review...'' @ [NL]) st) of
           (Inl e, st') \<Rightarrow> (Uncaught e, st')
         | (Inr review, st') \<Rightarrow> write_output ''Review'' w (output_file a) review st'))"

definition main_tester :: "world \<Rightarrow> args \<Rightarrow> state \<Rightarrow> outcome \<times> state" where
  "main_tester w a st =
     (if \<not> api_key_set w
      then (Exit 1, print_out ''Error: ANTHROPIC_API_KEY environment variable not set'' st)
      else
        (case run_test_generation w (files a)
                (print_err (''Generating Go Tests...'' @ [NL]) st) of
           (Inl e, st') \<Rightarrow> (Uncaught e, st')
         | (Inr tests, st') \<Rightarrow> write_output ''Tests'' w (output_file a) tests st'))"

subsection \<open>Notions used by the statements\<close>

text \<open>The block \<^verbatim>\<open>read_file\<close> gives for a path: fenced content, or the error text.\<close>

definition rendered :: "world \<Rightarrow> path \<Rightarrow> string" where
  "rendered w filepath =
     (case open_read w filepath of
        Inr content \<Rightarrow> file_block filepath content
      | Inl e \<Rightarrow> error_block filepath e)"

text \<open>The requests a run has sent to the generation service, oldest first.\<close>

fun request_of :: "event \<Rightarrow> (agent \<times> string) list" where
  "request_of (Create a content) = [(a, content)]"
| "request_of ev = []"

definition requests :: "state \<Rightarrow> (agent \<times> string) list" where
  "requests st = concat (map request_of (trace st))"

subsection \<open>Concrete surroundings\<close>

text \<open>
  A directory holding \<^verbatim>\<open>a.go\<close> and \<^verbatim>\<open>b.go\<close>, walked in the order
  \<^verbatim>\<open>b.go\<close>, \<^verbatim>\<open>a.go\<close>; every other path is missing. The credential is set,
  \<^verbatim>\<open>git\<close> prints nothing and succeeds, the service answers \<^verbatim>\<open>LGTM\<close>.
\<close>

definition no_such_file :: "path \<Rightarrow> string" where
  "no_such_file p = ''[Errno 2] No such file or directory: '' @ [CHR 0x27] @ p @ [CHR 0x27]"

definition world_ab :: world where
  "world_ab =
     \<lparr>entries = [''b.go'', ''a.go''],
      open_read = (\<lambda>p. if p = ''a.go'' then Inr ''package a''
                        else if p = ''b.go'' then Inr ''package b''
                        else Inl (no_such_file p)),
      path_exists = (\<lambda>p. p = ''a.go'' \<or> p = ''b.go''),
      subprocess_run = (\<lambda>cmd. Exited 0 [] []),
      messages_create = (\<lambda>a content. Inr ''LGTM''),
      open_write = (\<lambda>p. None),
      environ = [''ANTHROPIC_API_KEY'' \<mapsto> ''sk-test'']\<rparr>"

text \<open>The same directory outside a repository: \<^verbatim>\<open>git\<close> fails with code 128.\<close>

definition world_no_repo :: world where
  "world_no_repo =
     world_ab\<lparr>subprocess_run := (\<lambda>cmd. Exited 128 [] ''fatal: not a git repository'')\<rparr>"

text \<open>The same directory with a test file beside \<^verbatim>\<open>a.go\<close>.\<close>

definition world_tests :: world where
  "world_tests = world_ab\<lparr>entries := [''a_test.go'', ''a.go'']\<rparr>"

text \<open>A directory without Go files.\<close>

definition world_no_go :: world where
  "world_no_go = world_ab\<lparr>entries := [''README.md'']\<rparr>"



definition state0 :: state where
  "state0 = \<lparr>trace = [], stdout = [], stderr = [], written = Map.empty\<rparr>"

section \<open>Properties\<close>

subsection \<open>The reading loops\<close>







subsection \<open>Discovery\<close>

text \<open>
  Claim C2, as the code has it. Without an explicit file list each agent walks the
  directory. In the architect and the tester the result holds exactly the entries that
  end in \<^verbatim>\<open>.go\<close> and do not contain \<^verbatim>\<open>_test.go\<close>, in sorted order. In the
  reviewer the result holds exactly the entries that end in \<^verbatim>\<open>.go\<close>, test files
  included, in sorted order.
\<close>

theorem find_go_files_by_agent:
  "go_files_architect w None st = find_go_files w st \<and>
   go_files_tester w None st = find_go_files w st \<and>
   go_files_reviewer w None st = find_go_files_reviewer w st \<and>
   sorted (fst (find_go_files w st)) \<and>
   mset (fst (find_go_files w st)) =
     mset [p \<leftarrow> entries w. endswith p ''.go'' \<and> \<not> contains ''_test.go'' p] \<and>
   sorted (fst (find_go_files_reviewer w st)) \<and>
   mset (fst (find_go_files_reviewer w st)) = mset [p \<leftarrow> entries w. endswith p ''.go'']"
  by (simp add: go_files_architect_def go_files_tester_def go_files_reviewer_def
        find_go_files_def find_go_files_reviewer_def rglob_def)

theorem find_go_files_by_agent_witness:
  "go_files_architect world_tests None state0 = find_go_files world_tests state0 \<and>
   sorted (fst (find_go_files world_tests state0)) \<and>
   mset (fst (find_go_files world_tests state0)) = {#''a.go''#} \<and>
   mset (fst (find_go_files_reviewer world_tests state0)) = {#''a_test.go'', ''a.go''#}"
  using find_go_files_by_agent [of world_tests state0]
  by (simp add: world_tests_def world_ab_def endswith_def contains_def suffix_to_prefix
        sublist_code)

text \<open>
  The claim as stated fails for the reviewer: beside \<^verbatim>\<open>a.go\<close> its discovery
  returns \<^verbatim>\<open>a_test.go\<close>, a path that contains the test-file marker.
\<close>

theorem reviewer_discovery_keeps_tests:
  "fst (find_go_files_reviewer world_tests state0) = [''a.go'', ''a_test.go''] \<and>
   endswith ''a_test.go'' ''.go'' \<and> contains ''_test.go'' ''a_test.go''"
  by (simp add: find_go_files_reviewer_def rglob_def world_tests_def world_ab_def
        endswith_def contains_def suffix_to_prefix sublist_code)

text \<open>
  Claim C3, as the code has it. For a file list that is given and not empty, the
  architect and the reviewer keep exactly the entries that end in \<^verbatim>\<open>.go\<close>, in the
  caller's order; the tester keeps those of them that do not contain
  \<^verbatim>\<open>_test.go\<close>, in the caller's order. None of them touches the surroundings.
\<close>

theorem explicit_files_by_agent:
  assumes "flist = Some fs" and "fs \<noteq> []"
  shows "go_files_architect w flist st = ([f \<leftarrow> fs. endswith f ''.go''], st) \<and>
         go_files_reviewer w flist st = ([f \<leftarrow> fs. endswith f ''.go''], st) \<and>
         go_files_tester w flist st =
           ([f \<leftarrow> fs. endswith f ''.go'' \<and> \<not> contains ''_test.go'' f], st)"
  using assms
  by (cases fs) (simp_all add: go_files_architect_def go_files_reviewer_def go_files_tester_def)

theorem explicit_files_by_agent_witness:
  "go_files_architect world_ab (Some [''b.go'', ''notes.txt'', ''a_test.go'', ''a.go'']) state0 =
     ([''b.go'', ''a_test.go'', ''a.go''], state0) \<and>
   go_files_reviewer world_ab (Some [''b.go'', ''notes.txt'', ''a_test.go'', ''a.go'']) state0 =
     ([''b.go'', ''a_test.go'', ''a.go''], state0) \<and>
   go_files_tester world_ab (Some [''b.go'', ''notes.txt'', ''a_test.go'', ''a.go'']) state0 =
     ([''b.go'', ''a.go''], state0)"
  using explicit_files_by_agent
    [of "Some [''b.go'', ''notes.txt'', ''a_test.go'', ''a.go'']"
        "[''b.go'', ''notes.txt'', ''a_test.go'', ''a.go'']" world_ab state0]
  by (simp add: endswith_def contains_def suffix_to_prefix sublist_code)

text \<open>
  The claim as stated fails for the tester: from the list holding only
  \<^verbatim>\<open>a_test.go\<close> it keeps nothing, though the entry ends in \<^verbatim>\<open>.go\<close>.
\<close>

theorem tester_explicit_drops_tests:
  "fst (go_files_tester world_ab (Some [''a_test.go'']) state0) = [] \<and>
   [f \<leftarrow> [''a_test.go'']. endswith f ''.go''] = [''a_test.go'']"
  by (simp add: go_files_tester_def endswith_def contains_def suffix_to_prefix sublist_code)

lemma requests_emit:
  "requests (emit ev st) = requests st @ request_of ev"
  by (simp add: requests_def emit_def)

text \<open>
  Claim C6. When no entry of the directory ends in \<^verbatim>\<open>.go\<close> and no file list is
  given (or an empty one), discovery returns the empty list, the architect and the
  reviewer (outside diff mode) return \<^verbatim>\<open>No Go files found to review.\<close>, the tester
  returns \<^verbatim>\<open>No Go files found to generate tests for.\<close>, and the only call made to
  the surroundings is the directory walk: no request goes to the generation service.
\<close>

theorem no_go_files_no_request:
  assumes none: "\<forall>p \<in> set (entries w). \<not> endswith p ''.go''"
    and dir: "flist = None \<or> flist = Some []"
  shows "fst (find_go_files w st) = [] \<and>
         fst (find_go_files_reviewer w st) = [] \<and>
         run_review_architect w flist st =
           (Inr ''No Go files found to review.'', emit (Rglob ''*.go'') st) \<and>
         run_review_reviewer w flist False ref st =
           (Inr ''No Go files found to review.'', emit (Rglob ''*.go'') st) \<and>
         run_test_generation w flist st =
           (Inr ''No Go files found to generate tests for.'', emit (Rglob ''*.go'') st) \<and>
         requests (emit (Rglob ''*.go'') st) = requests st"
proof -
  have e: "[p \<leftarrow> entries w. endswith p ''.go''] = []"
    using none by (simp add: filter_empty_conv)
  have a: "find_go_files w st = ([], emit (Rglob ''*.go'') st)"
    by (simp add: find_go_files_def rglob_def e)
  have r: "find_go_files_reviewer w st = ([], emit (Rglob ''*.go'') st)"
    by (simp add: find_go_files_reviewer_def rglob_def e)
  have ga: "go_files_architect w flist st = find_go_files w st"
    using dir by (auto simp add: go_files_architect_def)
  have gr: "go_files_reviewer w flist st = find_go_files_reviewer w st"
    using dir by (auto simp add: go_files_reviewer_def)
  have gt: "go_files_tester w flist st = find_go_files w st"
    using dir by (auto simp add: go_files_tester_def)
  show ?thesis
    by (simp add: run_review_architect_def run_review_reviewer_def run_test_generation_def
          ga gr gt a r requests_emit)
qed

theorem no_go_files_no_request_witness:
  "run_review_architect world_no_go None state0 =
     (Inr ''No Go files found to review.'', emit (Rglob ''*.go'') state0) \<and>
   run_review_reviewer world_no_go None False ''main'' state0 =
     (Inr ''No Go files found to review.'', emit (Rglob ''*.go'') state0) \<and>
   run_test_generation world_no_go None state0 =
     (Inr ''No Go files found to generate tests for.'', emit (Rglob ''*.go'') state0) \<and>
   requests (emit (Rglob ''*.go'') state0) = []"
proof -
  have none: "\<forall>p \<in> set (entries world_no_go). \<not> endswith p ''.go''"
    by (simp add: world_no_go_def world_ab_def endswith_def suffix_to_prefix)
  have req: "requests state0 = []"
    by (simp add: requests_def state0_def)
  show ?thesis
    using no_go_files_no_request [OF none, of None state0 "''main''"] req
    by simp
qed

subsection \<open>The assembled context\<close>




subsection \<open>The diff mode of the reviewer\<close>




lemma rendered_header:
  "prefix (''### File: '' @ p @ [NL]) (rendered w p)"
  by (simp add: rendered_def file_block_def error_block_def split: sum.splits)

text \<open>
  Claim C1, as the code has it. In diff mode, whenever the \<^verbatim>\<open>git diff\<close> command
  exits with a code other than zero, \<^verbatim>\<open>run_review\<close> returns the message
  \<^verbatim>\<open>No changes to review or error: Error getting git diff: \<close> followed by the
  command's standard error output, and it returns at once: after the child process
  nothing else is called, and no request goes to the generation service.
\<close>

theorem diff_failure_returns_message:
  assumes run: "subprocess_run w [''git'', ''diff'', ref, ''--'', ''*.go''] = Exited rc out err"
    and rc: "rc \<noteq> 0"
  shows "run_review_reviewer w flist True ref st =
           (Inr (''No changes to review or error: Error getting git diff: '' @ err),
            emit (Run [''git'', ''diff'', ref, ''--'', ''*.go'']) st) \<and>
         requests (emit (Run [''git'', ''diff'', ref, ''--'', ''*.go'']) st) = requests st"
  using run rc
  by (simp add: run_review_reviewer_def get_git_diff_def startswith_def requests_emit)

theorem diff_failure_returns_message_witness:
  "run_review_reviewer world_no_repo None True ''main'' state0 =
     (Inr ''No changes to review or error: Error getting git diff: fatal: not a git repository'',
      emit (Run [''git'', ''diff'', ''main'', ''--'', ''*.go'']) state0)"
  using diff_failure_returns_message
    [of world_no_repo "''main''" 128 "[]" "''fatal: not a git repository''" None state0]
  by (simp add: world_no_repo_def)

text \<open>
  The claim as stated fails: outside a repository, where \<^verbatim>\<open>git diff\<close> exits with
  code 128, the run returns the message and the generation service is never called.
\<close>

theorem diff_failure_skips_dispatch:
  "fst (run_review_reviewer world_no_repo None True ''main'' state0) =
     Inr ''No changes to review or error: Error getting git diff: fatal: not a git repository'' \<and>
   requests (snd (run_review_reviewer world_no_repo None True ''main'' state0)) = [] \<and>
   \<not> dispatched (snd (run_review_reviewer world_no_repo None True ''main'' state0))"
  by (simp add: run_review_reviewer_def get_git_diff_def startswith_def world_no_repo_def
        requests_def dispatched_def emit_def state0_def)



subsection \<open>Exit on a missing credential, and the output router\<close>




text \<open>
  Claim C8. With a destination path that is given (and not empty) and can be written,
  the router writes the text to that path as its whole content, whatever the file held
  before, appends the one-line confirmation to the standard error stream, prints
  nothing to the standard output and ends with exit code 0. Without a destination it
  prints the text and a newline to the standard output, writes no file and leaves the
  standard error stream as it was.
\<close>

theorem output_router:
  assumes given: "p \<noteq> []"
    and ok: "open_write w p = None"
  shows "write_output what w (Some p) review st =
           (Exit 0,
            st\<lparr>trace := trace st @ [Open_write p],
               stderr := stderr st @ what @ '' written to '' @ p @ [NL],
               written := (written st)(p \<mapsto> review)\<rparr>) \<and>
         write_output what w None review st =
           (Exit 0, st\<lparr>stdout := stdout st @ review @ [NL]\<rparr>)"
  using given ok
  by (cases p) (simp_all add: write_output_def print_err_def print_out_def emit_def)

theorem output_router_witness:
  "write_output ''Review'' world_ab (Some ''review.md'') ''LGTM'' state0 =
     (Exit 0,
      \<lparr>trace = [Open_write ''review.md''],
       stdout = [],
       stderr = ''Review written to review.md'' @ [NL],
       written = [''review.md'' \<mapsto> ''LGTM'']\<rparr>) \<and>
   write_output ''Review'' world_ab None ''LGTM'' state0 =
     (Exit 0,
      \<lparr>trace = [], stdout = ''LGTM'' @ [NL], stderr = [], written = Map.empty\<rparr>)"
proof -
  have given: "''review.md'' \<noteq> []"
    by simp
  have ok: "open_write world_ab ''review.md'' = None"
    by (simp add: world_ab_def)
  show ?thesis
    using output_router [OF given ok, of "''Review''" "''LGTM''" state0]
    by (simp add: state0_def)
qed

text \<open>With the credential set, every entry point routes the text its run returns.\<close>

lemma main_routes_output:
  assumes "api_key_set w"
  shows "main_architect w a st =
           (case run_review_architect w (files a)
                   (print_err (''Running Go Architecture Review...'' @ [NL]) st) of
              (Inl e, st') \<Rightarrow> (Uncaught e, st')
            | (Inr review, st') \<Rightarrow> write_output ''Review'' w (output_file a) review st')"
    and "main_reviewer w ra st =
           (case run_review_reviewer w (files ra) (diff ra) (base ra)
                   (print_err (''Running Go Code Review...'' @ [NL]) st) of
              (Inl e, st') \<Rightarrow> (Uncaught e, st')
            | (Inr review, st') \<Rightarrow> write_output ''Review'' w (output_file ra) review st')"
    and "main_tester w a st =
           (case run_test_generation w (files a)
                   (print_err (''Generating Go Tests...'' @ [NL]) st) of
              (Inl e, st') \<Rightarrow> (Uncaught e, st')
            | (Inr tests, st') \<Rightarrow> write_output ''Tests'' w (output_file a) tests st')"
  using assms by (simp_all add: main_architect_def main_reviewer_def main_tester_def)

end
